theory Spec2Isabelle
  imports Main "HOL-Library.AList" "HOL-Library.Char_ord" "HOL-Library.List_Lexorder"
    "HOL-Library.Sublist"
begin

section \<open>toleo: tracking upstream and repository package versions\<close>

text \<open>
  A shallow embedding of \<^verbatim>\<open>src/toleo/__init__.py\<close>. The program is a class \<^verbatim>\<open>Toleo\<close>
  (a config loader, two resolvers, a version comparator and three report loops) and a
  command line entry point \<^verbatim>\<open>cli\<close>.

  Everything the program does beyond computing values is explicit here:
  \<^item> \<^verbatim>\<open>click.echo\<close> appends a line to the \<open>out\<close> field of a trace, and every HTTP request
    is appended to its \<open>net\<close> field;
  \<^item> every \<^verbatim>\<open>raise\<close> (also the implicit ones, such as \<^verbatim>\<open>None.get\<close>) and \<^verbatim>\<open>sys.exit\<close>
    is a value \<open>Inl e\<close> of the result type;
  \<^item> the libraries the program calls (\<^verbatim>\<open>requests\<close>, \<^verbatim>\<open>yaml\<close>, the file system,
    \<^verbatim>\<open>click.get_app_dir\<close>, \<^verbatim>\<open>pkg_resources.parse_version\<close>) are the fields of a record
    \<open>world\<close> that every function takes as its first argument.
\<close>

subsection \<open>Python values and faults\<close>

datatype error =
    SystemExit string
  | AttributeError
  | KeyError
  | ValueError
  | LibraryError string

text \<open>
  Values that come back from \<^verbatim>\<open>Response.json()\<close>. Python's \<^verbatim>\<open>None\<close> is \<open>JNull\<close>. An
  object is an association list in insertion order.
\<close>

datatype json =
    JNull
  | JBool bool
  | JNum int
  | JStr string
  | JArr "json list"
  | JObj "(string \<times> json) list"

text \<open>\<^verbatim>\<open>x.get(k)\<close>: only a dict has the method; a missing key gives \<^verbatim>\<open>None\<close>.\<close>

fun py_get :: "json \<Rightarrow> string \<Rightarrow> error + json" where
  "py_get (JObj kvs) k = Inr (case map_of kvs k of None \<Rightarrow> JNull | Some v \<Rightarrow> v)"
| "py_get _ k = Inl AttributeError"

text \<open>\<^verbatim>\<open>s.rstrip(chars)\<close>: drops every trailing character that occurs in \<^verbatim>\<open>chars\<close>.\<close>

definition rstrip :: "string \<Rightarrow> string \<Rightarrow> string" where
  "rstrip chars s = rev (dropWhile (\<lambda>c. c \<in> set chars) (rev s))"

text \<open>\<^verbatim>\<open>x.rstrip(chars)\<close> on a value that may not be a string.\<close>

fun py_rstrip :: "json \<Rightarrow> string \<Rightarrow> error + string" where
  "py_rstrip (JStr s) chars = Inr (rstrip chars s)"
| "py_rstrip _ chars = Inl AttributeError"

text \<open>\<^verbatim>\<open>a in b\<close> on two strings: \<open>a\<close> occurs in \<open>b\<close> as a contiguous substring.\<close>

fun py_in :: "string \<Rightarrow> string \<Rightarrow> bool" where
  "py_in a [] = (a = [])"
| "py_in a (c # cs) = (prefix a (c # cs) \<or> py_in a cs)"

text \<open>\<^verbatim>\<open>sep.join(xs)\<close>.\<close>

fun join :: "string \<Rightarrow> string list \<Rightarrow> string" where
  "join sep [] = []"
| "join sep [x] = x"
| "join sep (x # y # ys) = x @ sep @ join sep (y # ys)"

definition hex_digit :: "nat \<Rightarrow> char" where
  "hex_digit n = ''0123456789abcdef'' ! (n mod 16)"

definition hex2 :: "char \<Rightarrow> string" where
  "hex2 c = [hex_digit (of_char c div 16), hex_digit (of_char c mod 16)]"

subsection \<open>The trace of effects\<close>

datatype request =
    Get string
  | Head string
  | GetParams string "(string \<times> string) list"

record trace =
  out :: "string list"
  net :: "request list"

definition start :: trace where
  "start = \<lparr>out = [], net = []\<rparr>"

definition echo :: "string \<Rightarrow> trace \<Rightarrow> trace" where
  "echo s t = t\<lparr>out := out t @ [s]\<rparr>"

definition sent :: "request \<Rightarrow> trace \<Rightarrow> trace" where
  "sent r t = t\<lparr>net := net t @ [r]\<rparr>"

subsection \<open>Regular expressions\<close>

text \<open>
  The \<^verbatim>\<open>pattern\<close> of a package is given to \<^verbatim>\<open>re.findall\<close>. A pattern is modelled by its
  syntax tree, with at most one capturing group (\<^verbatim>\<open>findall\<close> then returns a list of
  strings; with two or more groups it returns tuples, which this embedding leaves out).
  \<open>Digit\<close> is \<^verbatim>\<open>\d\<close> on ASCII, \<open>AnyChar\<close> is \<^verbatim>\<open>.\<close>, \<open>OneOf\<close> a character class, \<open>Star\<close> the
  greedy \<^verbatim>\<open>*\<close>.
\<close>

datatype rx =
    Chr char
  | Digit
  | AnyChar
  | OneOf "char list"
  | Eps
  | Seq rx rx
  | Alt rx rx
  | Star rx
  | Group rx

text \<open>The greedy \<^verbatim>\<open>+\<close>: one occurrence, then \<^verbatim>\<open>*\<close>.\<close>

definition Plus :: "rx \<Rightarrow> rx" where
  "Plus a = Seq a (Star a)"

text \<open>
  \<open>rx_match r s cap\<close> lists, in the order in which the backtracking matcher of \<^verbatim>\<open>re\<close>
  tries them, the ways \<open>r\<close> can match a prefix of \<open>s\<close>: each is the rest of the input
  after the match and the text captured by the group so far. For \<open>Star a\<close>, \<open>star_more\<close>
  goes through the ways \<open>a\<close> matched once: the repetition goes on after each of them that
  consumed something (a body that consumed nothing is not repeated again), and at last
  there is the empty repetition.
\<close>

function (sequential) rx_match :: "rx \<Rightarrow> string \<Rightarrow> string option \<Rightarrow> (string \<times> string option) list"
  and star_more :: "rx \<Rightarrow> string \<Rightarrow> (string \<times> string option) list \<Rightarrow> (string \<times> string option) list"
  where
  "rx_match (Chr c) s cap =
     (case s of [] \<Rightarrow> [] | x # xs \<Rightarrow> if x = c then [(xs, cap)] else [])"
| "rx_match Digit s cap =
     (case s of [] \<Rightarrow> [] | x # xs \<Rightarrow> if x \<in> set ''0123456789'' then [(xs, cap)] else [])"
| "rx_match AnyChar s cap =
     (case s of [] \<Rightarrow> [] | x # xs \<Rightarrow> if x \<noteq> CHR 0x0A then [(xs, cap)] else [])"
| "rx_match (OneOf cs) s cap =
     (case s of [] \<Rightarrow> [] | x # xs \<Rightarrow> if x \<in> set cs then [(xs, cap)] else [])"
| "rx_match Eps s cap = [(s, cap)]"
| "rx_match (Seq a b) s cap = concat (map (\<lambda>(r, c). rx_match b r c) (rx_match a s cap))"
| "rx_match (Alt a b) s cap = rx_match a s cap @ rx_match b s cap"
| "rx_match (Star a) s cap = star_more a s (rx_match a s cap) @ [(s, cap)]"
| "rx_match (Group a) s cap =
     map (\<lambda>(r, c). (r, Some (take (length s - length r) s))) (rx_match a s cap)"
| "star_more a s [] = []"
| "star_more a s ((r, c) # ms) =
     (if length r < length s then rx_match (Star a) r c else [(r, c)]) @ star_more a s ms"
  by pat_completeness auto
termination
  by (relation "inv_image (less_than <*lex*> less_than <*lex*> less_than <*lex*> less_than)
        (\<lambda>x. case x of
            Inl (r, s, cap) \<Rightarrow> (size r, length s, Suc 0, 0)
          | Inr (a, s, ms) \<Rightarrow> (Suc (size a), length s, 0, length ms))")
     auto

fun has_group :: "rx \<Rightarrow> bool" where
  "has_group (Seq a b) = (has_group a \<or> has_group b)"
| "has_group (Alt a b) = (has_group a \<or> has_group b)"
| "has_group (Star a) = has_group a"
| "has_group (Group a) = True"
| "has_group _ = False"

text \<open>
  The first match that starts at the head of \<open>s\<close>; when \<open>must_advance\<close> is set (the
  previous match was empty and ended here) an empty match is not accepted.
\<close>

definition match_here :: "rx \<Rightarrow> string \<Rightarrow> bool \<Rightarrow> (string \<times> string option) option" where
  "match_here r s must_advance =
     (case filter (\<lambda>(rest, c). \<not> must_advance \<or> length rest < length s) (rx_match r s None) of
        [] \<Rightarrow> None
      | m # _ \<Rightarrow> Some m)"

text \<open>What \<^verbatim>\<open>findall\<close> reports for a match: the group if the pattern has one, else the match.\<close>

definition item :: "rx \<Rightarrow> string \<Rightarrow> string \<times> string option \<Rightarrow> string" where
  "item r s m =
     (if has_group r then (case snd m of None \<Rightarrow> [] | Some c \<Rightarrow> c)
      else take (length s - length (fst m)) s)"

text \<open>
  \<^verbatim>\<open>re.findall(pattern, s)\<close>: the search starts at the head of \<open>s\<close>, moves on by one
  character where the pattern does not match, and resumes at the end of each match. After
  an empty match the next match at the same place must not be empty.
\<close>

function findall_from :: "rx \<Rightarrow> string \<Rightarrow> bool \<Rightarrow> string list" where
  "findall_from r s must_advance =
     (case match_here r s must_advance of
        None \<Rightarrow> (case s of [] \<Rightarrow> [] | _ # s' \<Rightarrow> findall_from r s' False)
      | Some m \<Rightarrow> item r s m # findall_from r (fst m) (length (fst m) = length s))"
  by pat_completeness auto
termination
proof (relation "measure (\<lambda>(r, s, adv). 2 * length s + (if adv then 0 else 1))", goal_cases)
  case 1
  show ?case by simp
next
  case (2 r s must_advance x21 x22)
  then show ?case by simp
next
  case (3 r s must_advance m)
  have suffix: "((rest, c) \<in> set (rx_match r' s' cap) \<longrightarrow> length rest \<le> length s')"
    and "((rest, c) \<in> set (star_more r' s' ms) \<longrightarrow>
           (\<forall>x\<in>set ms. length (fst x) \<le> length s') \<longrightarrow> length rest \<le> length s')"
    for r' s' cap rest c ms
  proof (induction r' s' cap and r' s' ms arbitrary: rest c and rest c
      rule: rx_match_star_more.induct)
    case (6 a b s cap)
    show ?case
    proof
      assume "(rest, c) \<in> set (rx_match (Seq a b) s cap)"
      then obtain r1 c1 where a: "(r1, c1) \<in> set (rx_match a s cap)"
        and b: "(rest, c) \<in> set (rx_match b r1 c1)"
        by auto
      from "6.IH"(1) [of r1 c1] a "6.IH"(2) [OF a refl, of rest c] b show "length rest \<le> length s"
        by simp
    qed
  next
    case (8 a s cap)
    show ?case
    proof
      assume "(rest, c) \<in> set (rx_match (Star a) s cap)"
      then consider "(rest, c) = (s, cap)" | "(rest, c) \<in> set (star_more a s (rx_match a s cap))"
        by auto
      then show "length rest \<le> length s"
      proof cases
        case 1
        then show ?thesis by simp
      next
        case 2
        have "\<forall>x\<in>set (rx_match a s cap). length (fst x) \<le> length s"
          using "8.IH"(1) by auto
        with 2 "8.IH"(2) [of rest c] show ?thesis by blast
      qed
    qed
  next
    case (9 a s cap)
    then show ?case by auto
  next
    case (11 a s r c' ms)
    show ?case
    proof (intro impI)
      assume mem: "(rest, c) \<in> set (star_more a s ((r, c') # ms))"
        and bound: "\<forall>x\<in>set ((r, c') # ms). length (fst x) \<le> length s"
      from mem consider "length r < length s" "(rest, c) \<in> set (rx_match (Star a) r c')"
        | "\<not> length r < length s" "(rest, c) = (r, c')"
        | "(rest, c) \<in> set (star_more a s ms)"
        by (auto split: if_splits)
      then show "length rest \<le> length s"
      proof cases
        case 1
        from "11.IH"(1) [OF 1(1), of rest c] 1 show ?thesis by linarith
      next
        case 2
        with bound show ?thesis by simp
      next
        case 3
        with "11.IH"(2) [of rest c] bound show ?thesis by simp
      qed
    qed
  qed (auto split: list.splits if_splits)
  from 3 obtain ms where
    "filter (\<lambda>(rest, c). \<not> must_advance \<or> length rest < length s) (rx_match r s None) = m # ms"
    by (auto simp: match_here_def split: list.splits)
  then have "m \<in> set (filter (\<lambda>(rest, c). \<not> must_advance \<or> length rest < length s)
      (rx_match r s None))"
    by (metis list.set_intros(1))
  then have "m \<in> set (rx_match r s None)" and "\<not> must_advance \<or> length (fst m) < length s"
    by auto
  with suffix [of "fst m" "snd m" r s None] show ?case
    by auto
qed

definition findall :: "rx \<Rightarrow> string \<Rightarrow> string list" where
  "findall r s = findall_from r s False"

subsection \<open>Versions\<close>

text \<open>
  \<^verbatim>\<open>pkg_resources.parse_version\<close> belongs to setuptools, not to this program: the program
  only compares the objects it returns, with \<^verbatim>\<open>==\<close>, \<^verbatim>\<open>>\<close> and \<^verbatim>\<open><\<close>. It is a parameter of
  the embedding, a function from strings into an ordered type.
\<close>

definition ver_compare :: "(string \<Rightarrow> 'v::ord) \<Rightarrow> string \<Rightarrow> string \<Rightarrow> string option" where
  "ver_compare parse_version a b =
     (let a_ver = parse_version a;
          b_ver = parse_version b
      in if a_ver = b_ver then Some ''eq''
         else if a_ver > b_ver then Some ''gt''
         else if a_ver < b_ver then Some ''lt''
         else None)"

text \<open>
  For the runs on concrete pages, \<open>legacy_parse_version\<close> is the parser that setuptools
  has for loose version strings (\<^verbatim>\<open>_parse_version_parts\<close> and the key built from it): the
  string is put in lower case and cut into runs of digits, runs of letters, single dots
  and dashes and the text between them; dots are dropped, numbers are padded to eight
  digits, every other part gets a \<^verbatim>\<open>*\<close> in front, with \<^verbatim>\<open>pre\<close>, \<^verbatim>\<open>preview\<close> and \<^verbatim>\<open>rc\<close>
  replaced by \<^verbatim>\<open>c\<close>, \<^verbatim>\<open>dev\<close> by \<^verbatim>\<open>@\<close> and \<^verbatim>\<open>-\<close> by \<^verbatim>\<open>final-\<close>, and \<^verbatim>\<open>*final\<close> ends the list.
  The parts are compared as a tuple of strings, which is the lexicographic order of
  \<open>string list\<close>.
\<close>

definition is_digit :: "char \<Rightarrow> bool" where
  "is_digit c = (c \<in> set ''0123456789'')"

definition is_lower :: "char \<Rightarrow> bool" where
  "is_lower c = (c \<in> set ''abcdefghijklmnopqrstuvwxyz'')"

definition lower_char :: "char \<Rightarrow> char" where
  "lower_char c =
     (if c \<in> set ''ABCDEFGHIJKLMNOPQRSTUVWXYZ'' then char_of (of_char c + (32::nat)) else c)"

text \<open>Two neighbouring characters belong to the same component.\<close>

definition same_run :: "char \<Rightarrow> char \<Rightarrow> bool" where
  "same_run c d =
     ((is_digit c \<and> is_digit d) \<or> (is_lower c \<and> is_lower d) \<or>
      (\<not> is_digit c \<and> \<not> is_lower c \<and> c \<noteq> CHR ''.'' \<and> c \<noteq> CHR ''-'' \<and>
       \<not> is_digit d \<and> \<not> is_lower d \<and> d \<noteq> CHR ''.'' \<and> d \<noteq> CHR ''-''))"

text \<open>The non-empty strings of \<^verbatim>\<open>component_re.split(s)\<close>.\<close>

fun components :: "string \<Rightarrow> string list" where
  "components [] = []"
| "components (c # cs) =
     (case components cs of
        [] \<Rightarrow> [[c]]
      | [] # ps \<Rightarrow> [c] # ps
      | (d # p) # ps \<Rightarrow> if same_run c d then (c # d # p) # ps else [c] # (d # p) # ps)"

definition replace :: "string \<Rightarrow> string" where
  "replace part =
     (if part = ''pre'' then ''c''
      else if part = ''preview'' then ''c''
      else if part = ''-'' then ''final-''
      else if part = ''rc'' then ''c''
      else if part = ''dev'' then ''@''
      else part)"

definition zfill :: "nat \<Rightarrow> string \<Rightarrow> string" where
  "zfill n s = replicate (n - length s) CHR ''0'' @ s"

fun parse_version_parts_loop :: "string list \<Rightarrow> string list" where
  "parse_version_parts_loop [] = [''*final'']"
| "parse_version_parts_loop (part0 # rest) =
     (let part = replace part0
      in if part = [] \<or> part = ''.'' then parse_version_parts_loop rest
         else if is_digit (hd part) then zfill 8 part # parse_version_parts_loop rest
         else (CHR ''*'' # part) # parse_version_parts_loop rest)"

definition parse_version_parts :: "string \<Rightarrow> string list" where
  "parse_version_parts s = parse_version_parts_loop (components s)"

text \<open>\<^verbatim>\<open>while parts and parts[-1] == x: parts.pop()\<close>.\<close>

definition pop_all :: "string \<Rightarrow> string list \<Rightarrow> string list" where
  "pop_all x parts = rev (dropWhile (\<lambda>p. p = x) (rev parts))"

fun legacy_key_loop :: "string list \<Rightarrow> string list \<Rightarrow> string list" where
  "legacy_key_loop [] parts = parts"
| "legacy_key_loop (part # rest) parts =
     (if part \<noteq> [] \<and> hd part = CHR ''*''
      then legacy_key_loop rest
             (pop_all ''00000000''
                (if part < ''*final'' then pop_all ''*final-'' parts else parts) @ [part])
      else legacy_key_loop rest (parts @ [part]))"

definition legacy_parse_version :: "string \<Rightarrow> string list" where
  "legacy_parse_version s = legacy_key_loop (parse_version_parts (map lower_char s)) []"

subsection \<open>The configuration\<close>

text \<open>
  The YAML file of a collection is a mapping from package names to package definitions.
  A definition may have an \<^verbatim>\<open>upstream\<close> and a \<^verbatim>\<open>repo\<close> sub-record; the program reads
  them with \<^verbatim>\<open>dict.get\<close>, so a missing one is \<^verbatim>\<open>None\<close>. The mapping is an association
  list in the order of the file, with each name once. The \<^verbatim>\<open>url\<close> and the \<^verbatim>\<open>pattern\<close> of
  an upstream record are taken to be present.
\<close>

record upstream_def =
  url :: string
  parser :: "string option"
  pattern :: rx
  use_headers :: "bool option"

record repo_def =
  repo_url :: "string option"
  repo_parser :: "string option"

record package =
  upstream :: "upstream_def option"
  repo :: "repo_def option"

type_synonym config = "(string \<times> package) list"

subsection \<open>The world outside the program\<close>

text \<open>
  \<^item> \<open>parse_version\<close>: \<^verbatim>\<open>pkg_resources.parse_version\<close>;
  \<^item> \<open>get_app_dir\<close>: the value of \<^verbatim>\<open>click.get_app_dir('toleo')\<close>;
  \<^item> \<open>files\<close>: for the text of a path, \<open>None\<close> where \<^verbatim>\<open>is_file()\<close> is false, else what
    \<^verbatim>\<open>open\<close> and \<^verbatim>\<open>yaml.load\<close> give (a fault or the mapping);
  \<^item> \<open>requests_get\<close>: \<^verbatim>\<open>requests.get(url).text\<close>; \<open>requests_head\<close>:
    \<^verbatim>\<open>dict(requests.head(url).headers)\<close>; \<open>requests_get_json\<close>:
    \<^verbatim>\<open>requests.get(url, params=payload).json()\<close>; each may raise instead.
\<close>

record 'v world =
  parse_version :: "string \<Rightarrow> 'v"
  get_app_dir :: string
  files :: "string \<Rightarrow> (error + config) option"
  requests_get :: "string \<Rightarrow> error + string"
  requests_head :: "string \<Rightarrow> error + (string \<times> string) list"
  requests_get_json :: "string \<Rightarrow> (string \<times> string) list \<Rightarrow> error + json"

subsection \<open>Paths\<close>

text \<open>
  \<^verbatim>\<open>pathlib\<close> on POSIX: a path is a root flag and its components; empty components and
  \<^verbatim>\<open>.\<close> are dropped when a string is parsed. (A root of exactly two slashes, which
  \<^verbatim>\<open>pathlib\<close> keeps apart, is read as one.)
\<close>

record path =
  absolute :: bool
  parts :: "string list"

fun split_on :: "char \<Rightarrow> string \<Rightarrow> string list" where
  "split_on sep [] = [[]]"
| "split_on sep (c # cs) =
     (if c = sep then [] # split_on sep cs
      else (case split_on sep cs of [] \<Rightarrow> [[c]] | p # ps \<Rightarrow> (c # p) # ps))"

definition Path :: "string \<Rightarrow> path" where
  "Path s =
     \<lparr>absolute = (case s of [] \<Rightarrow> False | c # _ \<Rightarrow> c = CHR ''/''),
      parts = filter (\<lambda>p. p \<noteq> [] \<and> p \<noteq> ''.'') (split_on CHR ''/'' s)\<rparr>"

text \<open>\<^verbatim>\<open>p / s\<close>: an absolute right operand replaces the left one.\<close>

definition joinpath :: "path \<Rightarrow> string \<Rightarrow> path" where
  "joinpath p s =
     (if absolute (Path s) then Path s
      else \<lparr>absolute = absolute p, parts = parts p @ parts (Path s)\<rparr>)"

definition path_name :: "path \<Rightarrow> string" where
  "path_name p = (if parts p = [] then [] else last (parts p))"

text \<open>
  \<^verbatim>\<open>p.suffix\<close>: the name from its last dot on, unless that dot is the first or the last
  character of the name.
\<close>

definition path_suffix :: "path \<Rightarrow> string" where
  "path_suffix p =
     (let name = path_name p;
          ext = rev (takeWhile (\<lambda>c. c \<noteq> CHR ''.'') (rev name))
      in if length ext < length name \<and> 0 < length name - length ext - 1 \<and> ext \<noteq> []
         then drop (length name - length ext - 1) name
         else [])"

definition with_suffix :: "path \<Rightarrow> string \<Rightarrow> error + path" where
  "with_suffix p new_suffix =
     (let name = path_name p
      in if name = [] then Inl ValueError
         else Inr (p\<lparr>parts := butlast (parts p) @
                       [take (length name - length (path_suffix p)) name @ new_suffix]\<rparr>))"

definition path_str :: "path \<Rightarrow> string" where
  "path_str p =
     (if absolute p then ''/'' @ join ''/'' (parts p)
      else if parts p = [] then ''.''
      else join ''/'' (parts p))"

subsection \<open>Formatting\<close>

text \<open>\<^verbatim>\<open>click.style(msg, fg='red', bold=True)\<close>.\<close>

definition style_red_bold :: "string \<Rightarrow> string" where
  "style_red_bold msg =
     [CHR 0x1B] @ ''[31m'' @ [CHR 0x1B] @ ''[1m'' @ msg @ [CHR 0x1B] @ ''[0m''"

text \<open>\<^verbatim>\<open>'{}'.format(x)\<close> for a string or \<^verbatim>\<open>None\<close>, and for a truth value or \<^verbatim>\<open>None\<close>.\<close>

definition format_str :: "string option \<Rightarrow> string" where
  "format_str x = (case x of None \<Rightarrow> ''None'' | Some s \<Rightarrow> s)"

definition format_bool :: "bool option \<Rightarrow> string" where
  "format_bool x = (case x of None \<Rightarrow> ''None'' | Some b \<Rightarrow> if b then ''True'' else ''False'')"

text \<open>
  \<^verbatim>\<open>repr\<close> of a string and of a list of strings, for characters below 256: the quote
  is \<^verbatim>\<open>"\<close> when the string has a \<^verbatim>\<open>'\<close> and no \<^verbatim>\<open>"\<close>; the quote and the backslash are
  escaped, as are the characters that do not print.
\<close>

definition repr_char :: "char \<Rightarrow> char \<Rightarrow> string" where
  "repr_char quote c =
     (if c = quote \<or> c = CHR 0x5C then [CHR 0x5C, c]
      else if c = CHR 0x09 then [CHR 0x5C, CHR ''t'']
      else if c = CHR 0x0A then [CHR 0x5C, CHR ''n'']
      else if c = CHR 0x0D then [CHR 0x5C, CHR ''r'']
      else if (of_char c :: nat) < 32 \<or> (127 \<le> (of_char c :: nat) \<and> (of_char c :: nat) < 161)
              \<or> (of_char c :: nat) = 173
           then [CHR 0x5C, CHR ''x''] @ hex2 c
      else [c])"

definition repr_str :: "string \<Rightarrow> string" where
  "repr_str s =
     (let quote = (if CHR 0x27 \<in> set s \<and> CHR 0x22 \<notin> set s then CHR 0x22 else CHR 0x27)
      in [quote] @ concat (map (repr_char quote) s) @ [quote])"

definition repr_list :: "string list \<Rightarrow> string" where
  "repr_list xs = ''['' @ join '', '' (map repr_str xs) @ '']''"

text \<open>
  \<^verbatim>\<open>json.dumps\<close> of a dict of strings (with \<^verbatim>\<open>ensure_ascii\<close>), for characters below 256.
\<close>

definition json_char :: "char \<Rightarrow> string" where
  "json_char c =
     (if c = CHR 0x22 then [CHR 0x5C, CHR 0x22]
      else if c = CHR 0x5C then [CHR 0x5C, CHR 0x5C]
      else if c = CHR 0x0A then [CHR 0x5C, CHR ''n'']
      else if c = CHR 0x0D then [CHR 0x5C, CHR ''r'']
      else if c = CHR 0x09 then [CHR 0x5C, CHR ''t'']
      else if c = CHR 0x0C then [CHR 0x5C, CHR ''f'']
      else if c = CHR 0x08 then [CHR 0x5C, CHR ''b'']
      else if (of_char c :: nat) < 32 \<or> 126 < (of_char c :: nat)
           then [CHR 0x5C, CHR ''u'', CHR ''0'', CHR ''0''] @ hex2 c
      else [c])"

definition json_str :: "string \<Rightarrow> string" where
  "json_str s = [CHR 0x22] @ concat (map json_char s) @ [CHR 0x22]"

definition json_dumps :: "(string \<times> string) list \<Rightarrow> string" where
  "json_dumps d = ''{'' @ join '', '' (map (\<lambda>(k, v). json_str k @ '': '' @ json_str v) d) @ ''}''"

subsection \<open>The class \<^verbatim>\<open>Toleo\<close>\<close>

record toleo =
  debug :: bool
  collection :: string
  path_override :: "string option"
  limit :: "string option"
  cfg_path :: path
  cfg :: config
  line :: string

text \<open>
  \<^verbatim>\<open>find_config\<close>: \<^verbatim>\<open>path_override or click.get_app_dir('toleo')\<close> takes the override
  unless it is \<^verbatim>\<open>None\<close> or empty.
\<close>

definition find_config :: "'v world \<Rightarrow> string option \<Rightarrow> string \<Rightarrow> error + path" where
  "find_config w path_override' collection' =
     (let dir_name = (case path_override' of
                        None \<Rightarrow> get_app_dir w
                      | Some d \<Rightarrow> if d = [] then get_app_dir w else d);
          dir_path = Path dir_name
      in with_suffix (joinpath dir_path collection') ''.yaml'')"

text \<open>
  The loop of \<^verbatim>\<open>read_config\<close> that narrows the mapping: \<^verbatim>\<open>for key in full_cfg\<close> goes
  through the keys in order, \<^verbatim>\<open>full_cfg[key]\<close> looks the key up, and \<^verbatim>\<open>cfg[key] = ...\<close>
  stores it in the new mapping.
\<close>

fun read_config_loop :: "string \<Rightarrow> config \<Rightarrow> string list \<Rightarrow> config \<Rightarrow> error + config" where
  "read_config_loop lim full_cfg [] cfg' = Inr cfg'"
| "read_config_loop lim full_cfg (key # keys) cfg' =
     (if py_in lim key
      then (case map_of full_cfg key of
              None \<Rightarrow> Inl KeyError
            | Some v \<Rightarrow> read_config_loop lim full_cfg keys (AList.update key v cfg'))
      else read_config_loop lim full_cfg keys cfg')"

definition read_config :: "'v world \<Rightarrow> path \<Rightarrow> string option \<Rightarrow> error + config" where
  "read_config w cfg_path' limit' =
     (case files w (path_str cfg_path') of
        None \<Rightarrow> Inl (SystemExit (style_red_bold (''cannot read '' @ path_str cfg_path')))
      | Some (Inl e) \<Rightarrow> Inl e
      | Some (Inr full_cfg) \<Rightarrow>
          (case limit' of
             None \<Rightarrow> Inr full_cfg
           | Some lim \<Rightarrow> read_config_loop lim full_cfg (map fst full_cfg) []))"

text \<open>\<^verbatim>\<open>__init__\<close>.\<close>

definition Toleo ::
  "'v world \<Rightarrow> bool \<Rightarrow> string \<Rightarrow> string option \<Rightarrow> string option \<Rightarrow> error + toleo" where
  "Toleo w debug' collection' path_override' limit' =
     (case find_config w path_override' collection' of
        Inl e \<Rightarrow> Inl e
      | Inr cfg_path' \<Rightarrow>
          (case read_config w cfg_path' limit' of
             Inl e \<Rightarrow> Inl e
           | Inr cfg' \<Rightarrow>
               Inr \<lparr>debug = debug', collection = collection', path_override = path_override',
                    limit = limit', cfg_path = cfg_path', cfg = cfg',
                    line = replicate 50 CHR ''-''\<rparr>))"

text \<open>\<^verbatim>\<open>scrape\<close>: \<^verbatim>\<open>if use_headers\<close> is false for \<^verbatim>\<open>None\<close> too.\<close>

definition scrape :: "'v world \<Rightarrow> string \<Rightarrow> bool option \<Rightarrow> trace \<Rightarrow> (error + string) \<times> trace" where
  "scrape w url' use_headers' t =
     (if use_headers' = Some True
      then (case requests_head w url' of
              Inl e \<Rightarrow> (Inl e, sent (Head url') t)
            | Inr headers \<Rightarrow> (Inr (json_dumps headers), sent (Head url') t))
      else (case requests_get w url' of
              Inl e \<Rightarrow> (Inl e, sent (Get url') t)
            | Inr text \<Rightarrow> (Inr text, sent (Get url') t)))"

definition aur_api :: "'v world \<Rightarrow> string \<Rightarrow> string \<Rightarrow> trace \<Rightarrow> (error + json) \<times> trace" where
  "aur_api w method data t =
     (let payload = [(''type'', method), (''arg'', data)]
      in (requests_get_json w ''https://aur.archlinux.org/rpc.php'' payload,
          sent (GetParams ''https://aur.archlinux.org/rpc.php'' payload) t))"

text \<open>
  The loop of \<^verbatim>\<open>upstream_version\<close> over the matches, with the running \<^verbatim>\<open>version\<close>.
\<close>

fun upstream_version_loop :: "(string \<Rightarrow> 'v::ord) \<Rightarrow> string list \<Rightarrow> string \<Rightarrow> string" where
  "upstream_version_loop pv [] version = version"
| "upstream_version_loop pv (match # matches) version =
     (if ver_compare pv match version = Some ''gt''
      then upstream_version_loop pv matches (match @ ''-0'')
      else upstream_version_loop pv matches version)"

text \<open>
  \<^verbatim>\<open>upstream_version\<close>: \<^verbatim>\<open>self.cfg.get(pkg_name)\<close> and \<^verbatim>\<open>.get('upstream')\<close> give \<^verbatim>\<open>None\<close>
  for a missing key, and the next \<^verbatim>\<open>.get\<close> on \<^verbatim>\<open>None\<close> raises \<^verbatim>\<open>AttributeError\<close>.
\<close>

definition upstream_version ::
  "('v::ord) world \<Rightarrow> toleo \<Rightarrow> string \<Rightarrow> trace \<Rightarrow> (error + string) \<times> trace" where
  "upstream_version w self pkg_name t =
     (case map_of (cfg self) pkg_name of
        None \<Rightarrow> (Inl AttributeError, t)
      | Some pkg \<Rightarrow>
          (case upstream pkg of
             None \<Rightarrow> (Inl AttributeError, t)
           | Some up \<Rightarrow>
               (case scrape w (url up) (use_headers up) t of
                  (Inl e, t1) \<Rightarrow> (Inl e, t1)
                | (Inr result, t1) \<Rightarrow>
                    (let matches = findall (pattern up) result;
                         t2 = (if debug self
                               then echo (''matches:'' @ [CHR 0x09] @ repr_list matches)
                                     (echo (''use_headers:'' @ [CHR 0x09]
                                              @ format_bool (use_headers up))
                                       (echo (''parser:'' @ [CHR 0x09, CHR 0x09]
                                                @ format_str (parser up))
                                         (echo (''url:'' @ [CHR 0x09, CHR 0x09] @ url up) t1)))
                               else t1)
                     in (Inr (upstream_version_loop (parse_version w) matches []), t2)))))"

text \<open>\<^verbatim>\<open>repo_version\<close>: the \<^verbatim>\<open>url\<close> and \<^verbatim>\<open>parser\<close> of the repo record are read and not used.\<close>

definition repo_version ::
  "'v world \<Rightarrow> toleo \<Rightarrow> string \<Rightarrow> trace \<Rightarrow> (error + json) \<times> trace" where
  "repo_version w self pkg_name t =
     (case map_of (cfg self) pkg_name of
        None \<Rightarrow> (Inl AttributeError, t)
      | Some pkg \<Rightarrow>
          (case repo pkg of
             None \<Rightarrow> (Inl AttributeError, t)
           | Some rp \<Rightarrow>
               (case aur_api w ''info'' pkg_name t of
                  (Inl e, t1) \<Rightarrow> (Inl e, t1)
                | (Inr data, t1) \<Rightarrow>
                    (case py_get data ''results'' of
                       Inl e \<Rightarrow> (Inl e, t1)
                     | Inr result \<Rightarrow>
                         (case py_get result ''Version'' of
                            Inl e \<Rightarrow> (Inl e, t1)
                          | Inr version \<Rightarrow> (Inr version, t1))))))"

text \<open>The report loops, over the keys of \<^verbatim>\<open>self.cfg\<close> in order.\<close>

fun action_upstream_loop ::
  "('v::ord) world \<Rightarrow> toleo \<Rightarrow> string list \<Rightarrow> trace \<Rightarrow> (error + unit) \<times> trace" where
  "action_upstream_loop w self [] t = (Inr (), t)"
| "action_upstream_loop w self (pkg_name # rest) t =
     (case upstream_version w self pkg_name (echo (''package:'' @ [CHR 0x09] @ pkg_name) t) of
        (Inl e, t1) \<Rightarrow> (Inl e, t1)
      | (Inr src_version, t1) \<Rightarrow>
          action_upstream_loop w self rest
            (echo (line self) (echo (''upstream:'' @ [CHR 0x09] @ rstrip ''-0'' src_version) t1)))"

definition action_upstream :: "('v::ord) world \<Rightarrow> toleo \<Rightarrow> trace \<Rightarrow> (error + unit) \<times> trace" where
  "action_upstream w self t = action_upstream_loop w self (map fst (cfg self)) (echo (line self) t)"

fun action_repo_loop ::
  "'v world \<Rightarrow> toleo \<Rightarrow> string list \<Rightarrow> trace \<Rightarrow> (error + unit) \<times> trace" where
  "action_repo_loop w self [] t = (Inr (), t)"
| "action_repo_loop w self (pkg_name # rest) t =
     (case repo_version w self pkg_name (echo (''package:'' @ [CHR 0x09] @ pkg_name) t) of
        (Inl e, t1) \<Rightarrow> (Inl e, t1)
      | (Inr pkg_version, t1) \<Rightarrow>
          (case py_rstrip pkg_version ''-0'' of
             Inl e \<Rightarrow> (Inl e, t1)
           | Inr shown \<Rightarrow>
               action_repo_loop w self rest
                 (echo (line self) (echo (''repo:'' @ [CHR 0x09, CHR 0x09] @ shown) t1))))"

definition action_repo :: "'v world \<Rightarrow> toleo \<Rightarrow> trace \<Rightarrow> (error + unit) \<times> trace" where
  "action_repo w self t = action_repo_loop w self (map fst (cfg self)) (echo (line self) t)"

fun action_compare_loop ::
  "('v::ord) world \<Rightarrow> toleo \<Rightarrow> string list \<Rightarrow> trace \<Rightarrow> (error + unit) \<times> trace" where
  "action_compare_loop w self [] t = (Inr (), t)"
| "action_compare_loop w self (pkg_name # rest) t =
     (case upstream_version w self pkg_name (echo (''package:'' @ [CHR 0x09] @ pkg_name) t) of
        (Inl e, t1) \<Rightarrow> (Inl e, t1)
      | (Inr src_version, t1) \<Rightarrow>
          (case repo_version w self pkg_name
                  (echo (''upstream:'' @ [CHR 0x09] @ rstrip ''-0'' src_version) t1) of
             (Inl e, t2) \<Rightarrow> (Inl e, t2)
           | (Inr pkg_version, t2) \<Rightarrow>
               (case py_rstrip pkg_version ''-0'' of
                  Inl e \<Rightarrow> (Inl e, t2)
                | Inr shown \<Rightarrow>
                    action_compare_loop w self rest
                      (echo (line self) (echo (''repo:'' @ [CHR 0x09, CHR 0x09] @ shown) t2)))))"

definition action_compare :: "('v::ord) world \<Rightarrow> toleo \<Rightarrow> trace \<Rightarrow> (error + unit) \<times> trace" where
  "action_compare w self t = action_compare_loop w self (map fst (cfg self)) (echo (line self) t)"

subsection \<open>The command line\<close>

text \<open>
  \<^verbatim>\<open>cli\<close>, with the values that \<^verbatim>\<open>click\<close> hands to it: the \<^verbatim>\<open>action\<close> argument, the
  \<^verbatim>\<open>--debug\<close> flag, \<^verbatim>\<open>--collection\<close>, \<^verbatim>\<open>--path-override\<close> and \<^verbatim>\<open>--limit\<close>.
\<close>

definition cli ::
  "('v::ord) world \<Rightarrow> string \<Rightarrow> bool \<Rightarrow> string \<Rightarrow> string option \<Rightarrow> string option \<Rightarrow> trace
     \<Rightarrow> (error + unit) \<times> trace" where
  "cli w action debug' collection' path_override' limit' t =
     (case Toleo w debug' collection' path_override' limit' of
        Inl e \<Rightarrow> (Inl e, t)
      | Inr app \<Rightarrow>
          if action = ''upstream'' then action_upstream w app t
          else if action = ''repo'' then action_repo w app t
          else if action = ''compare'' then action_compare w app t
          else (Inr (), t))"

subsection \<open>Example collections and worlds\<close>

text \<open>
  The pattern \<^verbatim>\<open>v(\d+\.\d+\.\d+)\<close>, and a pattern for loose version strings,
  \<^verbatim>\<open>\d[0-9a-z.-]*\<close>.
\<close>

definition semver_pattern :: rx where
  "semver_pattern =
     Seq (Chr CHR ''v'')
       (Group (Seq (Plus Digit) (Seq (Chr CHR ''.'') (Seq (Plus Digit)
          (Seq (Chr CHR ''.'') (Plus Digit))))))"

definition loose_pattern :: rx where
  "loose_pattern = Seq Digit (Star (OneOf ''0123456789abcdefghijklmnopqrstuvwxyz.-''))"

definition page_rules :: "rx \<Rightarrow> upstream_def" where
  "page_rules pat =
     \<lparr>url = ''http://example.test/widget'', parser = None, pattern = pat, use_headers = None\<rparr>"

definition tracked :: "rx \<Rightarrow> package" where
  "tracked pat =
     \<lparr>upstream = Some (page_rules pat), repo = Some \<lparr>repo_url = None, repo_parser = None\<rparr>\<rparr>"

definition widget :: package where
  "widget = tracked semver_pattern"

text \<open>A package with no \<^verbatim>\<open>upstream\<close> record, and one with no \<^verbatim>\<open>repo\<close> record.\<close>

definition repo_only :: package where
  "repo_only = widget\<lparr>upstream := None\<rparr>"

definition upstream_only :: package where
  "upstream_only = widget\<lparr>repo := None\<rparr>"

text \<open>An answer of the repository for \<^verbatim>\<open>widget\<close> at version \<open>v\<close>.\<close>

definition aur_answer :: "string \<Rightarrow> json" where
  "aur_answer v =
     JObj [(''type'', JStr ''info''), (''resultcount'', JNum 1),
           (''results'', JObj [(''Name'', JStr ''widget''), (''Version'', JStr v)])]"

text \<open>
  A world with the collection \<^verbatim>\<open>default.yaml\<close> in the application directory and no other
  file, one upstream page, and a repository that gives the same answer to every query.
\<close>

definition example_world :: "config \<Rightarrow> string \<Rightarrow> json \<Rightarrow> (string list) world" where
  "example_world cfg' page answer =
     \<lparr>parse_version = legacy_parse_version,
      get_app_dir = ''/home/user/.config/toleo'',
      files = (\<lambda>p. if p = ''/home/user/.config/toleo/default.yaml''
                    then Some (Inr cfg') else None),
      requests_get = (\<lambda>u. if u = ''http://example.test/widget'' then Inr page
                           else Inl (LibraryError ''ConnectionError'')),
      requests_head = (\<lambda>u. Inl (LibraryError ''ConnectionError'')),
      requests_get_json = (\<lambda>u ps. Inr answer)\<rparr>"

text \<open>The object that \<^verbatim>\<open>Toleo()\<close> builds in such a world, with the default options.\<close>

definition example_app :: "config \<Rightarrow> toleo" where
  "example_app cfg' =
     \<lparr>debug = False, collection = ''default'', path_override = None, limit = None,
      cfg_path = \<lparr>absolute = True,
                  parts = [''home'', ''user'', ''.config'', ''toleo'', ''default.yaml'']\<rparr>,
      cfg = cfg', line = replicate 50 CHR ''-''\<rparr>"

definition widget_world :: "(string list) world" where
  "widget_world =
     example_world [(''widget'', widget)] ''download v1.4.0 now'' (aur_answer ''1.4.0-1'')"

definition no_release_world :: "(string list) world" where
  "no_release_world =
     example_world [(''widget'', widget)] ''no release yet'' (aur_answer ''1.4.0-1'')"

definition repo_only_world :: "(string list) world" where
  "repo_only_world =
     example_world [(''widget'', repo_only)] ''download v1.4.0 now'' (aur_answer ''1.4.0-1'')"

definition upstream_only_world :: "(string list) world" where
  "upstream_only_world =
     example_world [(''widget'', upstream_only)] ''download v1.4.0 now'' (aur_answer ''1.4.0-1'')"

definition three_versions_world :: "(string list) world" where
  "three_versions_world =
     example_world [(''widget'', tracked loose_pattern)] ''1.2.0 1.3.0-rc1 1.2.5''
       (aur_answer ''1.4.0-1'')"

definition post_release_world :: "(string list) world" where
  "post_release_world =
     example_world [(''widget'', tracked loose_pattern)] ''1.0 1.0-0'' (aur_answer ''1.4.0-1'')"

definition foo_world :: "(string list) world" where
  "foo_world =
     example_world [(''foobar'', widget), (''foo-lib'', widget), (''baz'', widget)]
       ''download v1.4.0 now'' (aur_answer ''1.4.0-1'')"

section \<open>Properties\<close>

subsection \<open>The version comparator\<close>

text \<open>
  C5. For all pairs of version strings \<open>a\<close> and \<open>b\<close>, \<open>ver_compare\<close> is antisymmetric:
  comparing \<open>a\<close> with \<open>b\<close> gives \<^verbatim>\<open>lt\<close> exactly when comparing \<open>b\<close> with \<open>a\<close> gives
  \<^verbatim>\<open>gt\<close>, and \<^verbatim>\<open>eq\<close> exactly when the other way round gives \<^verbatim>\<open>eq\<close>; and it is reflexive:
  comparing \<open>a\<close> with itself gives \<^verbatim>\<open>eq\<close>. This holds for every version parser whose
  values are ordered.
\<close>

theorem ver_compare_antisym_refl:
  fixes parse :: "string \<Rightarrow> 'v::order"
  shows "(ver_compare parse a b = Some ''lt'' \<longleftrightarrow> ver_compare parse b a = Some ''gt'')
       \<and> (ver_compare parse a b = Some ''eq'' \<longleftrightarrow> ver_compare parse b a = Some ''eq'')
       \<and> ver_compare parse a a = Some ''eq''"
  by (auto simp: ver_compare_def Let_def)

subsection \<open>The upstream resolver\<close>

lemma ver_compare_gt:
  fixes parse :: "string \<Rightarrow> 'v::order"
  shows "(ver_compare parse a b = Some ''gt'') = (parse b < parse a)"
  by (auto simp: ver_compare_def Let_def)

lemma upstream_version_loop_cases:
  "upstream_version_loop pv ms v = v \<or> (\<exists>m\<in>set ms. upstream_version_loop pv ms v = m @ ''-0'')"
proof (induction ms arbitrary: v)
  case Nil
  show ?case by simp
next
  case (Cons m ms)
  show ?case
  proof (cases "ver_compare pv m v = Some ''gt''")
    case True
    with Cons.IH [of "m @ ''-0''"] show ?thesis by auto
  next
    case False
    with Cons.IH [of v] show ?thesis by auto
  qed
qed

lemma upstream_version_loop_snoc:
  "upstream_version_loop pv (ms @ [m]) v =
     (if ver_compare pv m (upstream_version_loop pv ms v) = Some ''gt'' then m @ ''-0''
      else upstream_version_loop pv ms v)"
  by (induction ms arbitrary: v) simp_all

lemma upstream_version_run:
  assumes "map_of (cfg self) pkg = Some p" and "upstream p = Some up"
    and "scrape w (url up) (use_headers up) t = (Inr content, t1)"
  shows "fst (upstream_version w self pkg t) =
           Inr (upstream_version_loop (parse_version w) (findall (pattern up) content) [])"
    and "\<not> debug self \<Longrightarrow> snd (upstream_version w self pkg t) = t1"
  using assms by (simp_all add: upstream_version_def Let_def)

lemma scrape_example:
  "scrape (example_world c page a) ''http://example.test/widget'' None t =
     (Inr page, sent (Get ''http://example.test/widget'') t)"
  by (simp add: scrape_def example_world_def)

lemma example_package:
  "map_of (cfg (example_app [(''widget'', pkg)])) ''widget'' = Some pkg"
  by (simp add: example_app_def)

lemma example_scrape_rules:
  "scrape (example_world c page a) (url (page_rules pat)) (use_headers (page_rules pat)) t =
     (Inr page, sent (Get ''http://example.test/widget'') t)"
  by (simp add: page_rules_def scrape_example)

text \<open>
  C9. For every package with an upstream record and every content that \<open>scrape\<close> fetched
  for it, \<open>upstream_version\<close> returns a string, and that string is either empty or a match
  of the pattern in that content with \<^verbatim>\<open>-0\<close> appended; so every result that is not empty
  ends in \<^verbatim>\<open>-0\<close>.
\<close>

theorem upstream_version_empty_or_suffixed:
  assumes "map_of (cfg self) pkg = Some p" and "upstream p = Some up"
    and "scrape w (url up) (use_headers up) t = (Inr content, t1)"
  shows "\<exists>v. fst (upstream_version w self pkg t) = Inr v \<and>
           (v = [] \<or> (\<exists>m\<in>set (findall (pattern up) content). v = m @ ''-0''))"
  using upstream_version_run(1) [OF assms]
    upstream_version_loop_cases [of "parse_version w" "findall (pattern up) content" "[]"]
  by auto

theorem upstream_version_empty_or_suffixed_witness:
  "map_of (cfg (example_app [(''widget'', widget)])) ''widget'' = Some widget \<and>
   upstream widget = Some (page_rules semver_pattern) \<and>
   findall semver_pattern ''download v1.4.0 now'' = [''1.4.0''] \<and>
   fst (upstream_version widget_world (example_app [(''widget'', widget)]) ''widget'' start)
     = Inr (''1.4.0'' @ ''-0'')"
proof -
  have 1: "map_of (cfg (example_app [(''widget'', widget)])) ''widget'' = Some widget"
    by (rule example_package)
  have 2: "upstream widget = Some (page_rules semver_pattern)"
    by (simp add: widget_def tracked_def)
  have 3: "scrape widget_world (url (page_rules semver_pattern))
             (use_headers (page_rules semver_pattern)) start
           = (Inr ''download v1.4.0 now'', sent (Get ''http://example.test/widget'') start)"
    unfolding widget_world_def by (rule example_scrape_rules)
  have 4: "findall (pattern (page_rules semver_pattern)) ''download v1.4.0 now'' = [''1.4.0'']"
    by code_simp
  have 5: "fst (upstream_version widget_world (example_app [(''widget'', widget)]) ''widget'' start)
     \<noteq> Inr []"
    by code_simp
  from upstream_version_empty_or_suffixed [OF 1 2 3] 4 5
  have "fst (upstream_version widget_world (example_app [(''widget'', widget)]) ''widget'' start)
     = Inr (''1.4.0'' @ ''-0'')"
    by auto
  with 1 2 4 show ?thesis
    by (simp add: page_rules_def)
qed

lemma upstream_version_loop_first_max:
  fixes pv :: "string \<Rightarrow> 'v::linorder"
  assumes "\<forall>m\<in>set ms. pv [] < pv m"
    and "\<forall>m\<in>set ms. \<forall>b\<in>set ms. (pv (b @ ''-0'') < pv m) = (pv b < pv m)"
    and "ms \<noteq> []"
  shows "\<exists>i<length ms. upstream_version_loop pv ms [] = ms ! i @ ''-0'' \<and>
           (\<forall>j<length ms. pv (ms ! j) \<le> pv (ms ! i)) \<and> (\<forall>j<i. pv (ms ! j) < pv (ms ! i))"
  using assms
proof (induction ms rule: rev_induct)
  case Nil
  then show ?case by simp
next
  case (snoc m ms)
  show ?case
  proof (cases "ms = []")
    case True
    with snoc.prems(1) show ?thesis
      by (simp add: ver_compare_gt)
  next
    case False
    from snoc.prems have "\<forall>m\<in>set ms. pv [] < pv m"
      and "\<forall>m\<in>set ms. \<forall>b\<in>set ms. (pv (b @ ''-0'') < pv m) = (pv b < pv m)"
      by auto
    from snoc.IH [OF this False] obtain i where i: "i < length ms"
      and res: "upstream_version_loop pv ms [] = ms ! i @ ''-0''"
      and mx: "\<forall>j<length ms. pv (ms ! j) \<le> pv (ms ! i)"
      and fst: "\<forall>j<i. pv (ms ! j) < pv (ms ! i)"
      by blast
    from i have mem: "ms ! i \<in> set ms" by simp
    have stable: "(pv (ms ! i @ ''-0'') < pv m) = (pv (ms ! i) < pv m)"
      using snoc.prems(2) mem by auto
    show ?thesis
    proof (cases "pv (ms ! i) < pv m")
      case True
      have "upstream_version_loop pv (ms @ [m]) [] = (ms @ [m]) ! length ms @ ''-0''"
        using True stable res by (simp add: upstream_version_loop_snoc ver_compare_gt)
      moreover have "\<forall>j<length (ms @ [m]). pv ((ms @ [m]) ! j) \<le> pv ((ms @ [m]) ! length ms)"
      proof (intro allI impI)
        fix j assume "j < length (ms @ [m])"
        then consider "j < length ms" | "j = length ms" by fastforce
        then show "pv ((ms @ [m]) ! j) \<le> pv ((ms @ [m]) ! length ms)"
        proof cases
          case 1
          with mx True show ?thesis by (auto simp: nth_append intro: order.trans less_imp_le)
        next
          case 2
          then show ?thesis by simp
        qed
      qed
      moreover have "\<forall>j<length ms. pv ((ms @ [m]) ! j) < pv ((ms @ [m]) ! length ms)"
        using mx True by (auto simp: nth_append intro: le_less_trans)
      ultimately show ?thesis
        by (intro exI [of _ "length ms"]) simp
    next
      case False
      have "upstream_version_loop pv (ms @ [m]) [] = (ms @ [m]) ! i @ ''-0''"
        using False stable res i by (simp add: upstream_version_loop_snoc ver_compare_gt nth_append)
      moreover have "\<forall>j<length (ms @ [m]). pv ((ms @ [m]) ! j) \<le> pv ((ms @ [m]) ! i)"
      proof (intro allI impI)
        fix j assume "j < length (ms @ [m])"
        then consider "j < length ms" | "j = length ms" by fastforce
        then show "pv ((ms @ [m]) ! j) \<le> pv ((ms @ [m]) ! i)"
        proof cases
          case 1
          with mx i show ?thesis by (simp add: nth_append)
        next
          case 2
          with False i show ?thesis by (simp add: nth_append)
        qed
      qed
      moreover have "\<forall>j<i. pv ((ms @ [m]) ! j) < pv ((ms @ [m]) ! i)"
        using fst i by (simp add: nth_append)
      ultimately show ?thesis
        using i by (intro exI [of _ i]) simp
    qed
  qed
qed

lemma three_matches:
  "findall loose_pattern ''1.2.0 1.3.0-rc1 1.2.5'' = [''1.2.0'', ''1.3.0-rc1'', ''1.2.5'']"
  by code_simp

text \<open>
  C4, as stated, fails. The loop compares each match with the running version, which
  already carries \<^verbatim>\<open>-0\<close>, not with the match it came from. For the matches \<^verbatim>\<open>1.0\<close> and
  \<^verbatim>\<open>1.0-0\<close> the second is the greater one, yet it only ties with the running \<^verbatim>\<open>1.0-0\<close>, and
  the resolver returns \<^verbatim>\<open>1.0-0\<close>, not \<^verbatim>\<open>1.0-0-0\<close>.
\<close>

theorem upstream_version_not_maximum:
  "findall loose_pattern ''1.0 1.0-0'' = [''1.0'', ''1.0-0''] \<and>
   ver_compare legacy_parse_version ''1.0-0'' ''1.0'' = Some ''gt'' \<and>
   fst (upstream_version post_release_world (example_app [(''widget'', tracked loose_pattern)])
          ''widget'' start) = Inr ''1.0-0'' \<and>
   ''1.0-0'' \<noteq> ''1.0-0'' @ ''-0''"
  by code_simp

text \<open>
  C4, amended. The resolver goes through the matches in order of appearance, starting
  from the empty version, and takes a match (with \<^verbatim>\<open>-0\<close> appended) when it compares
  greater than the running version. Provided that every match compares greater than the
  empty version, and that appending \<^verbatim>\<open>-0\<close> to a match does not change which matches are
  greater than it, the result is the maximum of the matches, the first of them on ties,
  with \<^verbatim>\<open>-0\<close> appended; with no match it is the empty version. The witness is the page
  with \<^verbatim>\<open>1.2.0\<close>, \<^verbatim>\<open>1.3.0-rc1\<close> and \<^verbatim>\<open>1.2.5\<close>, for which the resolver returns \<^verbatim>\<open>1.3.0-rc1-0\<close>.
\<close>

theorem upstream_version_first_maximum:
  fixes w :: "('v::linorder) world"
  assumes "map_of (cfg self) pkg = Some p" and "upstream p = Some up"
    and "scrape w (url up) (use_headers up) t = (Inr content, t1)"
    and "matches = findall (pattern up) content"
    and "\<forall>m\<in>set matches. parse_version w [] < parse_version w m"
    and "\<forall>m\<in>set matches. \<forall>b\<in>set matches.
           (parse_version w (b @ ''-0'') < parse_version w m) = (parse_version w b < parse_version w m)"
  shows "(matches = [] \<longrightarrow> fst (upstream_version w self pkg t) = Inr []) \<and>
         (matches \<noteq> [] \<longrightarrow>
            (\<exists>i<length matches.
               fst (upstream_version w self pkg t) = Inr (matches ! i @ ''-0'') \<and>
               (\<forall>j<length matches. parse_version w (matches ! j) \<le> parse_version w (matches ! i)) \<and>
               (\<forall>j<i. parse_version w (matches ! j) < parse_version w (matches ! i))))"
proof (cases "matches = []")
  case True
  with upstream_version_run(1) [OF assms(1-3)] assms(4) show ?thesis by simp
next
  case False
  from upstream_version_loop_first_max [OF assms(5,6) False]
    upstream_version_run(1) [OF assms(1-3)] assms(4) False
  show ?thesis by simp
qed

theorem upstream_version_first_maximum_witness:
  "findall loose_pattern ''1.2.0 1.3.0-rc1 1.2.5'' = [''1.2.0'', ''1.3.0-rc1'', ''1.2.5''] \<and>
   fst (upstream_version three_versions_world (example_app [(''widget'', tracked loose_pattern)])
          ''widget'' start) = Inr ''1.3.0-rc1-0''"
proof -
  let ?ms = "[''1.2.0'', ''1.3.0-rc1'', ''1.2.5'']"
  have 1: "map_of (cfg (example_app [(''widget'', tracked loose_pattern)])) ''widget''
             = Some (tracked loose_pattern)"
    by (simp add: example_app_def)
  have 2: "upstream (tracked loose_pattern) = Some (page_rules loose_pattern)"
    by (simp add: tracked_def)
  have 3: "scrape three_versions_world (url (page_rules loose_pattern))
             (use_headers (page_rules loose_pattern)) start
           = (Inr ''1.2.0 1.3.0-rc1 1.2.5'', sent (Get ''http://example.test/widget'') start)"
    by (simp add: three_versions_world_def page_rules_def scrape_example)
  have 4: "?ms = findall (pattern (page_rules loose_pattern)) ''1.2.0 1.3.0-rc1 1.2.5''"
    by (simp add: page_rules_def three_matches)
  have 5: "\<forall>m\<in>set ?ms. parse_version three_versions_world [] < parse_version three_versions_world m"
    by code_simp
  have 6: "\<forall>m\<in>set ?ms. \<forall>b\<in>set ?ms.
      (parse_version three_versions_world (b @ ''-0'') < parse_version three_versions_world m)
      = (parse_version three_versions_world b < parse_version three_versions_world m)"
    by code_simp
  have 7: "fst (upstream_version three_versions_world (example_app [(''widget'', tracked loose_pattern)])
          ''widget'' start) = Inr ''1.3.0-rc1-0''"
    by code_simp
  from upstream_version_first_maximum [OF 1 2 3 4 5 6] 7 three_matches show ?thesis
    by simp
qed

subsection \<open>What a report shows\<close>

lemma rstrip_unchanged:
  "v = [] \<or> last v \<notin> set chars \<Longrightarrow> rstrip chars v = v"
  by (cases v rule: rev_cases) (auto simp: rstrip_def)

lemma rstrip_append:
  "set tl' \<subseteq> set chars \<Longrightarrow> rstrip chars (v @ tl') = rstrip chars v"
proof -
  have "dropWhile (\<lambda>c. c \<in> set chars) (rev tl' @ rev v) = dropWhile (\<lambda>c. c \<in> set chars) (rev v)"
    if "set tl' \<subseteq> set chars"
    using that by (intro dropWhile_append2) auto
  then show "set tl' \<subseteq> set chars \<Longrightarrow> rstrip chars (v @ tl') = rstrip chars v"
    by (simp add: rstrip_def)
qed

lemma rstrip_prefix: "prefix (rstrip chars v) v"
proof -
  have "v = rstrip chars v @ rev (takeWhile (\<lambda>c. c \<in> set chars) (rev v))"
    unfolding rstrip_def by (metis rev_append rev_rev_ident takeWhile_dropWhile_id)
  then show ?thesis by (metis prefixI)
qed

lemma widget_compare_run:
  "cli widget_world ''compare'' False ''default'' None None start =
     (Inr (), \<lparr>out = [replicate 50 CHR ''-'', ''package:'' @ [CHR 0x09] @ ''widget'',
                      ''upstream:'' @ [CHR 0x09] @ rstrip ''-0'' ''1.4.0-0'',
                      ''repo:'' @ [CHR 0x09, CHR 0x09] @ ''1.4.0-1'', replicate 50 CHR ''-''],
               net = [Get ''http://example.test/widget'',
                      GetParams ''https://aur.archlinux.org/rpc.php''
                        [(''type'', ''info''), (''arg'', ''widget'')]]\<rparr>)"
  by code_simp

text \<open>
  C1, as stated, fails. \<^verbatim>\<open>rstrip('-0')\<close> does not remove the suffix \<^verbatim>\<open>-0\<close>: it removes every
  trailing \<^verbatim>\<open>-\<close> and \<^verbatim>\<open>0\<close>. For the page \<^verbatim>\<open>download v1.4.0 now\<close> the resolved upstream
  version is \<^verbatim>\<open>1.4.0-0\<close> and the report shows \<^verbatim>\<open>1.4.\<close>; the repository version \<^verbatim>\<open>1.4.0-1\<close>
  does not end in \<^verbatim>\<open>-\<close> or \<^verbatim>\<open>0\<close> and is shown as it is, not as \<^verbatim>\<open>1.4.0\<close>.
\<close>

theorem rstrip_is_not_suffix_removal:
  "rstrip ''-0'' ''1.4.0-0'' = ''1.4.'' \<and>
   fst (upstream_version widget_world (example_app [(''widget'', widget)]) ''widget'' start)
     = Inr ''1.4.0-0'' \<and>
   cli widget_world ''compare'' False ''default'' None None start =
     (Inr (), \<lparr>out = [replicate 50 CHR ''-'', ''package:'' @ [CHR 0x09] @ ''widget'',
                      ''upstream:'' @ [CHR 0x09] @ ''1.4.'',
                      ''repo:'' @ [CHR 0x09, CHR 0x09] @ ''1.4.0-1'', replicate 50 CHR ''-''],
               net = [Get ''http://example.test/widget'',
                      GetParams ''https://aur.archlinux.org/rpc.php''
                        [(''type'', ''info''), (''arg'', ''widget'')]]\<rparr>)"
  by code_simp

text \<open>
  C1, amended. In every report mode the line of a package shows its resolved version
  after \<^verbatim>\<open>rstrip('-0')\<close>. A version that is empty or does not end in \<^verbatim>\<open>-\<close> or \<^verbatim>\<open>0\<close> is
  shown unchanged, and for such a version \<open>v\<close> the resolved version \<open>v @ ''-0''\<close> is shown
  as \<open>v\<close>. For the page \<^verbatim>\<open>download v1.4.0 now\<close>, the pattern \<^verbatim>\<open>v(\d+\.\d+\.\d+)\<close> and the
  repository version \<^verbatim>\<open>1.4.0-1\<close>, the \<^verbatim>\<open>compare\<close> action prints a divider line, the package
  line, an upstream line with a prefix of \<^verbatim>\<open>1.4.0-0\<close>, the line \<^verbatim>\<open>repo: 1.4.0-1\<close> and a
  divider line.
\<close>

theorem displayed_version:
  fixes w :: "('v::ord) world"
  shows
  "(v = [] \<or> last v \<notin> set ''-0'' \<longrightarrow> rstrip ''-0'' v = v \<and> rstrip ''-0'' (v @ ''-0'') = v) \<and>
   (upstream_version w self pkg (echo (''package:'' @ [CHR 0x09] @ pkg) t) = (Inr u, t1) \<longrightarrow>
      action_upstream_loop w self (pkg # rest) t =
        action_upstream_loop w self rest
          (echo (line self) (echo (''upstream:'' @ [CHR 0x09] @ rstrip ''-0'' u) t1))) \<and>
   (repo_version w self pkg (echo (''package:'' @ [CHR 0x09] @ pkg) t) = (Inr (JStr r), t2) \<longrightarrow>
      action_repo_loop w self (pkg # rest) t =
        action_repo_loop w self rest
          (echo (line self) (echo (''repo:'' @ [CHR 0x09, CHR 0x09] @ rstrip ''-0'' r) t2))) \<and>
   (upstream_version w self pkg (echo (''package:'' @ [CHR 0x09] @ pkg) t) = (Inr u, t1) \<and>
    repo_version w self pkg (echo (''upstream:'' @ [CHR 0x09] @ rstrip ''-0'' u) t1)
      = (Inr (JStr r), t3) \<longrightarrow>
      action_compare_loop w self (pkg # rest) t =
        action_compare_loop w self rest
          (echo (line self) (echo (''repo:'' @ [CHR 0x09, CHR 0x09] @ rstrip ''-0'' r) t3))) \<and>
   (\<exists>shown. prefix shown ''1.4.0-0'' \<and>
      cli widget_world ''compare'' False ''default'' None None start =
        (Inr (), \<lparr>out = [replicate 50 CHR ''-'', ''package:'' @ [CHR 0x09] @ ''widget'',
                         ''upstream:'' @ [CHR 0x09] @ shown,
                         ''repo:'' @ [CHR 0x09, CHR 0x09] @ ''1.4.0-1'', replicate 50 CHR ''-''],
                  net = [Get ''http://example.test/widget'',
                         GetParams ''https://aur.archlinux.org/rpc.php''
                           [(''type'', ''info''), (''arg'', ''widget'')]]\<rparr>))"
proof (intro conjI impI)
  assume v: "v = [] \<or> last v \<notin> set ''-0''"
  then show "rstrip ''-0'' v = v"
    by (rule rstrip_unchanged)
  have "rstrip ''-0'' (v @ ''-0'') = rstrip ''-0'' v"
    by (rule rstrip_append) simp
  with v show "rstrip ''-0'' (v @ ''-0'') = v"
    by (simp add: rstrip_unchanged)
next
  assume "upstream_version w self pkg (echo (''package:'' @ [CHR 0x09] @ pkg) t) = (Inr u, t1)"
  then show "action_upstream_loop w self (pkg # rest) t =
        action_upstream_loop w self rest
          (echo (line self) (echo (''upstream:'' @ [CHR 0x09] @ rstrip ''-0'' u) t1))"
    by simp
next
  assume "repo_version w self pkg (echo (''package:'' @ [CHR 0x09] @ pkg) t) = (Inr (JStr r), t2)"
  then show "action_repo_loop w self (pkg # rest) t =
        action_repo_loop w self rest
          (echo (line self) (echo (''repo:'' @ [CHR 0x09, CHR 0x09] @ rstrip ''-0'' r) t2))"
    by simp
next
  assume "upstream_version w self pkg (echo (''package:'' @ [CHR 0x09] @ pkg) t) = (Inr u, t1) \<and>
    repo_version w self pkg (echo (''upstream:'' @ [CHR 0x09] @ rstrip ''-0'' u) t1)
      = (Inr (JStr r), t3)"
  then show "action_compare_loop w self (pkg # rest) t =
        action_compare_loop w self rest
          (echo (line self) (echo (''repo:'' @ [CHR 0x09, CHR 0x09] @ rstrip ''-0'' r) t3))"
    by simp
next
  show "\<exists>shown. prefix shown ''1.4.0-0'' \<and>
      cli widget_world ''compare'' False ''default'' None None start =
        (Inr (), \<lparr>out = [replicate 50 CHR ''-'', ''package:'' @ [CHR 0x09] @ ''widget'',
                         ''upstream:'' @ [CHR 0x09] @ shown,
                         ''repo:'' @ [CHR 0x09, CHR 0x09] @ ''1.4.0-1'', replicate 50 CHR ''-''],
                  net = [Get ''http://example.test/widget'',
                         GetParams ''https://aur.archlinux.org/rpc.php''
                           [(''type'', ''info''), (''arg'', ''widget'')]]\<rparr>)"
    using widget_compare_run rstrip_prefix [of "''-0''" "''1.4.0-0''"]
    by (intro exI [of _ "rstrip ''-0'' ''1.4.0-0''"] conjI)
qed

theorem displayed_version_witness:
  "rstrip ''-0'' ''1.4.0-1'' = ''1.4.0-1'' \<and>
   rstrip ''-0'' (''1.4.0-1'' @ ''-0'') = ''1.4.0-1'' \<and>
   action_upstream_loop widget_world (example_app [(''widget'', widget)]) [''widget''] start =
     (Inr (), \<lparr>out = [''package:'' @ [CHR 0x09] @ ''widget'',
                      ''upstream:'' @ [CHR 0x09] @ rstrip ''-0'' ''1.4.0-0'',
                      replicate 50 CHR ''-''],
               net = [Get ''http://example.test/widget'']\<rparr>) \<and>
   action_repo_loop widget_world (example_app [(''widget'', widget)]) [''widget''] start =
     (Inr (), \<lparr>out = [''package:'' @ [CHR 0x09] @ ''widget'',
                      ''repo:'' @ [CHR 0x09, CHR 0x09] @ ''1.4.0-1'',
                      replicate 50 CHR ''-''],
               net = [GetParams ''https://aur.archlinux.org/rpc.php''
                        [(''type'', ''info''), (''arg'', ''widget'')]]\<rparr>) \<and>
   action_compare_loop widget_world (example_app [(''widget'', widget)]) [''widget''] start =
     (Inr (), \<lparr>out = [''package:'' @ [CHR 0x09] @ ''widget'',
                      ''upstream:'' @ [CHR 0x09] @ rstrip ''-0'' ''1.4.0-0'',
                      ''repo:'' @ [CHR 0x09, CHR 0x09] @ ''1.4.0-1'',
                      replicate 50 CHR ''-''],
               net = [Get ''http://example.test/widget'',
                      GetParams ''https://aur.archlinux.org/rpc.php''
                        [(''type'', ''info''), (''arg'', ''widget'')]]\<rparr>)"
proof -
  let ?app = "example_app [(''widget'', widget)]"
  let ?p = "echo (''package:'' @ [CHR 0x09] @ ''widget'') start"
  let ?t1 = "sent (Get ''http://example.test/widget'') ?p"
  let ?t2 = "sent (GetParams ''https://aur.archlinux.org/rpc.php''
                        [(''type'', ''info''), (''arg'', ''widget'')]) ?p"
  let ?t3 = "sent (GetParams ''https://aur.archlinux.org/rpc.php''
                        [(''type'', ''info''), (''arg'', ''widget'')])
               (echo (''upstream:'' @ [CHR 0x09] @ rstrip ''-0'' ''1.4.0-0'') ?t1)"
  have v: "''1.4.0-1'' = [] \<or> last ''1.4.0-1'' \<notin> set ''-0''"
    by simp
  have u: "upstream_version widget_world ?app ''widget'' ?p = (Inr ''1.4.0-0'', ?t1)"
    by code_simp
  have r: "repo_version widget_world ?app ''widget'' ?p = (Inr (JStr ''1.4.0-1''), ?t2)"
    by code_simp
  have c: "repo_version widget_world ?app ''widget''
             (echo (''upstream:'' @ [CHR 0x09] @ rstrip ''-0'' ''1.4.0-0'') ?t1)
           = (Inr (JStr ''1.4.0-1''), ?t3)"
    by code_simp
  have l: "line ?app = replicate 50 CHR ''-''"
    by (simp add: example_app_def)
  have s: "rstrip ''-0'' ''1.4.0-1'' = ''1.4.0-1''"
    using v by (rule rstrip_unchanged)
  from displayed_version [where v = "''1.4.0-1''" and w = widget_world and self = ?app
      and pkg = "''widget''" and t = start and u = "''1.4.0-0''" and ?t1.0 = ?t1
      and r = "''1.4.0-1''" and ?t2.0 = ?t2 and ?t3.0 = ?t3 and rest = "[]"] v u r c
  show ?thesis
    by (simp add: l s echo_def sent_def start_def)
qed

text \<open>
  C2, as stated, fails. With a pattern that matches nothing the resolver returns the
  empty string, and \<^verbatim>\<open>''.rstrip('-0')\<close> is the empty string: nothing is raised and the
  report prints an upstream line with no version.
\<close>

theorem empty_version_display_succeeds:
  "findall semver_pattern ''no release yet'' = [] \<and>
   cli no_release_world ''upstream'' False ''default'' None None start =
     (Inr (), \<lparr>out = [replicate 50 CHR ''-'', ''package:'' @ [CHR 0x09] @ ''widget'',
                      ''upstream:'' @ [CHR 0x09], replicate 50 CHR ''-''],
               net = [Get ''http://example.test/widget'']\<rparr>)"
  by code_simp

text \<open>
  C2, amended. For every package whose pattern matches nothing in the fetched content,
  the upstream resolver returns the empty version; the trim of the empty version for
  display is the empty string, and the upstream report prints an upstream line with no
  version after it, then the divider, and goes on with the next package.
\<close>

theorem no_match_empty_version_shown:
  assumes "map_of (cfg self) pkg = Some p" and "upstream p = Some up"
    and "scrape w (url up) (use_headers up) (echo (''package:'' @ [CHR 0x09] @ pkg) t)
           = (Inr content, t1)"
    and "findall (pattern up) content = []"
  shows "fst (upstream_version w self pkg (echo (''package:'' @ [CHR 0x09] @ pkg) t)) = Inr [] \<and>
         rstrip ''-0'' [] = [] \<and>
         action_upstream_loop w self (pkg # rest) t =
           action_upstream_loop w self rest
             (echo (line self) (echo (''upstream:'' @ [CHR 0x09])
                (snd (upstream_version w self pkg (echo (''package:'' @ [CHR 0x09] @ pkg) t)))))"
proof -
  have v: "fst (upstream_version w self pkg (echo (''package:'' @ [CHR 0x09] @ pkg) t)) = Inr []"
    using upstream_version_run(1) [OF assms(1-3)] assms(4) by simp
  have r: "rstrip ''-0'' [] = []"
    by (simp add: rstrip_def)
  obtain x t' where x: "upstream_version w self pkg (echo (''package:'' @ [CHR 0x09] @ pkg) t) = (x, t')"
    by (cases "upstream_version w self pkg (echo (''package:'' @ [CHR 0x09] @ pkg) t)")
  with v have "x = Inr []" by simp
  with x r have "action_upstream_loop w self (pkg # rest) t =
           action_upstream_loop w self rest
             (echo (line self) (echo (''upstream:'' @ [CHR 0x09]) t'))"
    by simp
  with v r x show ?thesis by simp
qed

theorem no_match_empty_version_shown_witness:
  "findall semver_pattern ''no release yet'' = [] \<and>
   action_upstream_loop no_release_world (example_app [(''widget'', widget)]) [''widget''] start =
     (Inr (), \<lparr>out = [''package:'' @ [CHR 0x09] @ ''widget'', ''upstream:'' @ [CHR 0x09],
                      replicate 50 CHR ''-''],
               net = [Get ''http://example.test/widget'']\<rparr>)"
proof -
  let ?t = "echo (''package:'' @ [CHR 0x09] @ ''widget'') start"
  have 1: "map_of (cfg (example_app [(''widget'', widget)])) ''widget'' = Some widget"
    by (rule example_package)
  have 2: "upstream widget = Some (page_rules semver_pattern)"
    by (simp add: widget_def tracked_def)
  have 3: "scrape no_release_world (url (page_rules semver_pattern))
             (use_headers (page_rules semver_pattern)) ?t
           = (Inr ''no release yet'', sent (Get ''http://example.test/widget'') ?t)"
    unfolding no_release_world_def by (rule example_scrape_rules)
  have 4: "findall (pattern (page_rules semver_pattern)) ''no release yet'' = []"
    by code_simp
  have 5: "snd (upstream_version no_release_world (example_app [(''widget'', widget)]) ''widget'' ?t)
      = sent (Get ''http://example.test/widget'') ?t"
    using upstream_version_run(2) [OF 1 2 3] by (simp add: example_app_def)
  from no_match_empty_version_shown [OF 1 2 3 4, of "[]"] 4 5 show ?thesis
    by (simp add: page_rules_def echo_def sent_def start_def example_app_def)
qed

text \<open>
  C3, as stated, fails. For a package with no \<^verbatim>\<open>upstream\<close> record the resolver raises
  \<^verbatim>\<open>AttributeError\<close> (from \<^verbatim>\<open>None.get\<close>), and the run ends there: it reports no outcome of
  its own for a package without upstream.
\<close>

theorem no_upstream_record_fails:
  "cli repo_only_world ''upstream'' False ''default'' None None start =
     (Inl AttributeError,
      \<lparr>out = [replicate 50 CHR ''-'', ''package:'' @ [CHR 0x09] @ ''widget''], net = []\<rparr>)"
  by code_simp

text \<open>
  C3, amended. For every package whose definition has no \<^verbatim>\<open>upstream\<close> record, resolving
  its upstream version sends no request and prints nothing (the trace is unchanged) and
  fails with \<^verbatim>\<open>AttributeError\<close>, which is not the empty version that stands for no
  version found; the upstream and the compare report end with that fault after the
  package line.
\<close>

theorem no_upstream_record_no_request:
  assumes "map_of (cfg self) pkg = Some p" and "upstream p = None"
  shows "upstream_version w self pkg t = (Inl AttributeError, t) \<and>
         action_upstream_loop w self (pkg # rest) t =
           (Inl AttributeError, echo (''package:'' @ [CHR 0x09] @ pkg) t) \<and>
         action_compare_loop w self (pkg # rest) t =
           (Inl AttributeError, echo (''package:'' @ [CHR 0x09] @ pkg) t)"
  using assms by (simp add: upstream_version_def)

theorem no_upstream_record_no_request_witness:
  "map_of (cfg (example_app [(''widget'', repo_only)])) ''widget'' = Some repo_only \<and>
   upstream repo_only = None \<and>
   upstream_version repo_only_world (example_app [(''widget'', repo_only)]) ''widget'' start
     = (Inl AttributeError, \<lparr>out = [], net = []\<rparr>)"
proof -
  have 1: "map_of (cfg (example_app [(''widget'', repo_only)])) ''widget'' = Some repo_only"
    by (rule example_package)
  have 2: "upstream repo_only = None"
    by (simp add: repo_only_def)
  from no_upstream_record_no_request [OF 1 2, of repo_only_world start] 1 2 show ?thesis
    by (simp add: start_def)
qed

subsection \<open>The config loader and the command line\<close>

lemma py_in_sublist: "py_in a b = sublist a b"
  by (induction b) (auto simp: sublist_Cons_right)

lemma update_fresh:
  "k \<notin> fst ` set al \<Longrightarrow> AList.update k v al = al @ [(k, v)]"
  by (induction al) auto

lemma read_config_loop_filter:
  assumes "distinct (map fst acc @ map fst xs)"
    and "\<forall>(k, v)\<in>set xs. map_of full_cfg k = Some v"
  shows "read_config_loop lim full_cfg (map fst xs) acc =
           Inr (acc @ filter (\<lambda>(k, v). py_in lim k) xs)"
  using assms
proof (induction xs arbitrary: acc)
  case Nil
  show ?case by simp
next
  case (Cons x xs)
  obtain k v where x: "x = (k, v)" by (cases x)
  from Cons.prems(2) x have look: "map_of full_cfg k = Some v" by simp
  from Cons.prems(2) have rest: "\<forall>(k, v)\<in>set xs. map_of full_cfg k = Some v" by simp
  show ?case
  proof (cases "py_in lim k")
    case True
    from Cons.prems(1) x have fresh: "k \<notin> fst ` set acc" by auto
    from Cons.prems(1) x have "distinct (map fst (acc @ [(k, v)]) @ map fst xs)" by auto
    from Cons.IH [OF this rest] True look x fresh show ?thesis
      by (simp add: update_fresh)
  next
    case False
    from Cons.prems(1) x have "distinct (map fst acc @ map fst xs)" by auto
    from Cons.IH [OF this rest] False x show ?thesis by simp
  qed
qed

lemma read_config_loop_total:
  "set keys \<subseteq> fst ` set full_cfg \<Longrightarrow> \<exists>c. read_config_loop lim full_cfg keys acc = Inr c"
proof (induction keys arbitrary: acc)
  case Nil
  show ?case by simp
next
  case (Cons key keys)
  then obtain v where "map_of full_cfg key = Some v"
    by (metis (no_types, lifting) list.set_intros(1) map_of_eq_None_iff not_Some_eq subsetD)
  with Cons show ?case by simp
qed

lemma read_config_missing:
  "files w (path_str p) = None \<Longrightarrow>
     read_config w p lim = Inl (SystemExit (style_red_bold (''cannot read '' @ path_str p)))"
  by (simp add: read_config_def)

lemma read_config_total:
  "files w (path_str p) = Some (Inr full_cfg) \<Longrightarrow> \<exists>c. read_config w p lim = Inr c"
  using read_config_loop_total [of "map fst full_cfg" full_cfg]
  by (cases lim) (auto simp: read_config_def)

lemma read_config_limit:
  assumes "files w (path_str p) = Some (Inr full_cfg)" and "distinct (map fst full_cfg)"
  shows "read_config w p (Some lim) = Inr (filter (\<lambda>(name, pkg). sublist lim name) full_cfg)"
proof -
  from assms(2) have "\<forall>(k, v)\<in>set full_cfg. map_of full_cfg k = Some v"
    by auto
  with read_config_loop_filter [of "[]" full_cfg full_cfg lim] assms
  show ?thesis
    by (simp add: read_config_def py_in_sublist)
qed

text \<open>
  C6. If the YAML file of the requested collection, at the path that \<open>find_config\<close>
  resolved, is not a file, the program ends at once with \<^verbatim>\<open>SystemExit\<close> and a message that
  contains the resolved path; nothing has been printed and no request has been sent (the
  trace is unchanged), whatever the action and the options. There is no retry and no
  default. A fault of reading the file is not handled: it ends the program as it is.
\<close>

theorem missing_config_terminates:
  assumes "find_config w path_override' collection' = Inr p"
  shows "(files w (path_str p) = None \<longrightarrow>
            cli w action debug' collection' path_override' limit' t =
              (Inl (SystemExit (style_red_bold (''cannot read '' @ path_str p))), t) \<and>
            sublist (path_str p) (style_red_bold (''cannot read '' @ path_str p))) \<and>
         (files w (path_str p) = Some (Inl e) \<longrightarrow>
            cli w action debug' collection' path_override' limit' t = (Inl e, t))"
proof (intro conjI impI)
  assume "files w (path_str p) = None"
  with assms show "cli w action debug' collection' path_override' limit' t =
      (Inl (SystemExit (style_red_bold (''cannot read '' @ path_str p))), t)"
    by (simp add: cli_def Toleo_def read_config_missing)
next
  have "style_red_bold (''cannot read '' @ path_str p) =
      ([CHR 0x1B] @ ''[31m'' @ [CHR 0x1B] @ ''[1m'' @ ''cannot read '') @ path_str p
        @ ([CHR 0x1B] @ ''[0m'')"
    by (simp add: style_red_bold_def)
  then show "sublist (path_str p) (style_red_bold (''cannot read '' @ path_str p))"
    unfolding sublist_def by blast
next
  assume "files w (path_str p) = Some (Inl e)"
  with assms show "cli w action debug' collection' path_override' limit' t = (Inl e, t)"
    by (simp add: cli_def Toleo_def read_config_def)
qed

theorem missing_config_terminates_witness:
  "find_config widget_world None ''ghost'' =
     Inr \<lparr>absolute = True, parts = [''home'', ''user'', ''.config'', ''toleo'', ''ghost.yaml'']\<rparr> \<and>
   files widget_world ''/home/user/.config/toleo/ghost.yaml'' = None \<and>
   cli widget_world ''compare'' False ''ghost'' None None start =
     (Inl (SystemExit (style_red_bold ''cannot read /home/user/.config/toleo/ghost.yaml'')),
      \<lparr>out = [], net = []\<rparr>) \<and>
   sublist ''/home/user/.config/toleo/ghost.yaml''
     (style_red_bold ''cannot read /home/user/.config/toleo/ghost.yaml'')"
proof -
  let ?p = "\<lparr>absolute = True, parts = [''home'', ''user'', ''.config'', ''toleo'', ''ghost.yaml'']\<rparr>"
  have 1: "find_config widget_world None ''ghost'' = Inr ?p"
    by code_simp
  have 2: "path_str ?p = ''/home/user/.config/toleo/ghost.yaml''"
    by code_simp
  have 3: "files widget_world ''/home/user/.config/toleo/ghost.yaml'' = None"
    by code_simp
  from missing_config_terminates [OF 1, where action = "''compare''" and debug' = False
      and limit' = None and t = start] 1 2 3 show ?thesis
    by (simp add: start_def)
qed

text \<open>
  C7. When a name filter is given, the collection that \<^verbatim>\<open>Toleo()\<close> loads is the source
  mapping narrowed, in its order, to exactly the packages whose name contains the
  filter as a substring. When no name does, each report is the divider line alone, and
  no error. In the witness the filter \<^verbatim>\<open>foo\<close> over \<^verbatim>\<open>foobar\<close>, \<^verbatim>\<open>foo-lib\<close> and \<^verbatim>\<open>baz\<close> leaves
  \<^verbatim>\<open>foobar\<close> and \<^verbatim>\<open>foo-lib\<close>.
\<close>

theorem limit_narrows_collection:
  fixes w :: "('v::ord) world"
  assumes "find_config w path_override' collection' = Inr p"
    and "files w (path_str p) = Some (Inr full_cfg)"
    and "distinct (map fst full_cfg)"
  shows "\<exists>app. Toleo w debug' collection' path_override' (Some lim) = Inr app \<and>
           cfg app = filter (\<lambda>(name, pkg). sublist lim name) full_cfg \<and>
           (cfg app = [] \<longrightarrow>
              action_upstream w app t = (Inr (), echo (line app) t) \<and>
              action_repo w app t = (Inr (), echo (line app) t) \<and>
              action_compare w app t = (Inr (), echo (line app) t))"
  using assms(1) read_config_limit [OF assms(2,3), of lim]
  by (simp add: Toleo_def action_upstream_def action_repo_def action_compare_def)

theorem limit_narrows_collection_witness:
  "distinct (map fst [(''foobar'', widget), (''foo-lib'', widget), (''baz'', widget)]) \<and>
   (\<exists>app. Toleo foo_world False ''default'' None (Some ''foo'') = Inr app \<and>
          cfg app = [(''foobar'', widget), (''foo-lib'', widget)]) \<and>
   cli foo_world ''repo'' False ''default'' None (Some ''foo'') start =
     (Inr (), \<lparr>out = [replicate 50 CHR ''-'',
                      ''package:'' @ [CHR 0x09] @ ''foobar'',
                      ''repo:'' @ [CHR 0x09, CHR 0x09] @ ''1.4.0-1'', replicate 50 CHR ''-'',
                      ''package:'' @ [CHR 0x09] @ ''foo-lib'',
                      ''repo:'' @ [CHR 0x09, CHR 0x09] @ ''1.4.0-1'', replicate 50 CHR ''-''],
               net = [GetParams ''https://aur.archlinux.org/rpc.php''
                        [(''type'', ''info''), (''arg'', ''foobar'')],
                      GetParams ''https://aur.archlinux.org/rpc.php''
                        [(''type'', ''info''), (''arg'', ''foo-lib'')]]\<rparr>) \<and>
   cli foo_world ''repo'' False ''default'' None (Some ''qux'') start =
     (Inr (), \<lparr>out = [replicate 50 CHR ''-''], net = []\<rparr>)"
proof -
  let ?p = "\<lparr>absolute = True, parts = [''home'', ''user'', ''.config'', ''toleo'', ''default.yaml'']\<rparr>"
  let ?full = "[(''foobar'', widget), (''foo-lib'', widget), (''baz'', widget)]"
  have 1: "find_config foo_world None ''default'' = Inr ?p"
    by code_simp
  have 2: "files foo_world (path_str ?p) = Some (Inr ?full)"
    by code_simp
  have 3: "distinct (map fst ?full)"
    by simp
  have 4: "filter (\<lambda>(name, pkg). sublist ''foo'' name) ?full
             = [(''foobar'', widget), (''foo-lib'', widget)]"
    by (simp add: py_in_sublist [symmetric])
  have 5: "cli foo_world ''repo'' False ''default'' None (Some ''foo'') start =
     (Inr (), \<lparr>out = [replicate 50 CHR ''-'',
                      ''package:'' @ [CHR 0x09] @ ''foobar'',
                      ''repo:'' @ [CHR 0x09, CHR 0x09] @ ''1.4.0-1'', replicate 50 CHR ''-'',
                      ''package:'' @ [CHR 0x09] @ ''foo-lib'',
                      ''repo:'' @ [CHR 0x09, CHR 0x09] @ ''1.4.0-1'', replicate 50 CHR ''-''],
               net = [GetParams ''https://aur.archlinux.org/rpc.php''
                        [(''type'', ''info''), (''arg'', ''foobar'')],
                      GetParams ''https://aur.archlinux.org/rpc.php''
                        [(''type'', ''info''), (''arg'', ''foo-lib'')]]\<rparr>)"
    by code_simp
  have 6: "cli foo_world ''repo'' False ''default'' None (Some ''qux'') start =
     (Inr (), \<lparr>out = [replicate 50 CHR ''-''], net = []\<rparr>)"
    by code_simp
  from limit_narrows_collection [OF 1 2 3, where lim = "''foo''" and debug' = False and t = start]
    3 4 5 6
  show ?thesis
    by auto
qed

text \<open>
  C10. For every action other than \<^verbatim>\<open>upstream\<close>, \<^verbatim>\<open>repo\<close> and \<^verbatim>\<open>compare\<close>, the command line
  still loads the config file: it ends with \<^verbatim>\<open>SystemExit\<close> when the file is missing, and
  when the file is there it prints nothing, sends no request and ends without an error.
\<close>

theorem unknown_action_silent:
  assumes "action \<noteq> ''upstream''" and "action \<noteq> ''repo''" and "action \<noteq> ''compare''"
    and "find_config w path_override' collection' = Inr p"
  shows "(files w (path_str p) = None \<longrightarrow>
            cli w action debug' collection' path_override' limit' t =
              (Inl (SystemExit (style_red_bold (''cannot read '' @ path_str p))), t)) \<and>
         (files w (path_str p) = Some (Inr full_cfg) \<longrightarrow>
            cli w action debug' collection' path_override' limit' t = (Inr (), t))"
proof (intro conjI impI)
  assume "files w (path_str p) = None"
  with assms(4) show "cli w action debug' collection' path_override' limit' t =
      (Inl (SystemExit (style_red_bold (''cannot read '' @ path_str p))), t)"
    by (simp add: cli_def Toleo_def read_config_missing)
next
  assume "files w (path_str p) = Some (Inr full_cfg)"
  from read_config_total [OF this] obtain c where "read_config w p limit' = Inr c"
    by blast
  with assms show "cli w action debug' collection' path_override' limit' t = (Inr (), t)"
    by (simp add: cli_def Toleo_def)
qed

theorem unknown_action_silent_witness:
  "cli widget_world ''outdated'' False ''default'' None None start = (Inr (), \<lparr>out = [], net = []\<rparr>) \<and>
   cli widget_world ''outdated'' False ''ghost'' None None start =
     (Inl (SystemExit (style_red_bold ''cannot read /home/user/.config/toleo/ghost.yaml'')),
      \<lparr>out = [], net = []\<rparr>)"
proof -
  let ?p = "\<lparr>absolute = True, parts = [''home'', ''user'', ''.config'', ''toleo'', ''default.yaml'']\<rparr>"
  let ?g = "\<lparr>absolute = True, parts = [''home'', ''user'', ''.config'', ''toleo'', ''ghost.yaml'']\<rparr>"
  have a: "''outdated'' \<noteq> ''upstream''" "''outdated'' \<noteq> ''repo''" "''outdated'' \<noteq> ''compare''"
    by simp_all
  have 1: "find_config widget_world None ''default'' = Inr ?p"
    by code_simp
  have 2: "files widget_world (path_str ?p) = Some (Inr [(''widget'', widget)])"
    by code_simp
  have 3: "find_config widget_world None ''ghost'' = Inr ?g"
    by code_simp
  have 4: "files widget_world (path_str ?g) = None"
    by code_simp
  have 5: "path_str ?g = ''/home/user/.config/toleo/ghost.yaml''"
    by code_simp
  from unknown_action_silent [OF a 1, where full_cfg = "[(''widget'', widget)]"
        and debug' = False and limit' = None and t = start] 2
    unknown_action_silent [OF a 3, where full_cfg = "[]"
        and debug' = False and limit' = None and t = start] 4 5
  show ?thesis
    by (simp add: start_def)
qed

subsection \<open>The repo resolver\<close>

text \<open>
  C8, as stated, fails for a package with no \<^verbatim>\<open>repo\<close> record: \<open>repo_version\<close> reads the
  record first, and raises \<^verbatim>\<open>AttributeError\<close> before it sends any query.
\<close>

theorem no_repo_record_no_query:
  "cli upstream_only_world ''repo'' False ''default'' None None start =
     (Inl AttributeError,
      \<lparr>out = [replicate 50 CHR ''-'', ''package:'' @ [CHR 0x09] @ ''widget''], net = []\<rparr>)"
  by code_simp

text \<open>
  C8, amended. For every package of the collection whose definition has a \<^verbatim>\<open>repo\<close>
  record, the repo resolver sends one query with \<^verbatim>\<open>type=info\<close> and \<^verbatim>\<open>arg\<close> the package name
  to the fixed endpoint, every time it is called, and returns the \<^verbatim>\<open>Version\<close> field of the
  \<^verbatim>\<open>results\<close> object of the answer (\<^verbatim>\<open>None\<close> when the object has no such field). A fault
  of the request ends the resolver as it is, and an answer with no \<^verbatim>\<open>results\<close> key, or
  with a list there, ends it with \<^verbatim>\<open>AttributeError\<close>.
\<close>

theorem repo_version_query:
  assumes "map_of (cfg self) pkg = Some p" and "repo p = Some rp"
    and "answer = requests_get_json w ''https://aur.archlinux.org/rpc.php''
                    [(''type'', ''info''), (''arg'', pkg)]"
  shows "snd (repo_version w self pkg t) =
           sent (GetParams ''https://aur.archlinux.org/rpc.php''
                   [(''type'', ''info''), (''arg'', pkg)]) t \<and>
         (answer = Inr (JObj d) \<and> map_of d ''results'' = Some (JObj r) \<longrightarrow>
            fst (repo_version w self pkg t) =
              Inr (case map_of r ''Version'' of None \<Rightarrow> JNull | Some v \<Rightarrow> v)) \<and>
         (answer = Inl e \<longrightarrow> fst (repo_version w self pkg t) = Inl e) \<and>
         (answer = Inr (JObj d) \<and> map_of d ''results'' = None \<longrightarrow>
            fst (repo_version w self pkg t) = Inl AttributeError) \<and>
         (answer = Inr (JObj d) \<and> map_of d ''results'' = Some (JArr xs) \<longrightarrow>
            fst (repo_version w self pkg t) = Inl AttributeError)"
  using assms
  by (auto simp: repo_version_def aur_api_def Let_def split: sum.splits prod.splits)

theorem repo_version_query_witness:
  "map_of (cfg (example_app [(''widget'', widget)])) ''widget'' = Some widget \<and>
   repo widget = Some \<lparr>repo_url = None, repo_parser = None\<rparr> \<and>
   repo_version widget_world (example_app [(''widget'', widget)]) ''widget'' start =
     (Inr (JStr ''1.4.0-1''),
      \<lparr>out = [], net = [GetParams ''https://aur.archlinux.org/rpc.php''
                          [(''type'', ''info''), (''arg'', ''widget'')]]\<rparr>)"
proof -
  let ?app = "example_app [(''widget'', widget)]"
  have 1: "map_of (cfg ?app) ''widget'' = Some widget"
    by (rule example_package)
  have 2: "repo widget = Some \<lparr>repo_url = None, repo_parser = None\<rparr>"
    by (simp add: widget_def tracked_def)
  have 3: "aur_answer ''1.4.0-1'' = JObj [(''type'', JStr ''info''), (''resultcount'', JNum 1),
           (''results'', JObj [(''Name'', JStr ''widget''), (''Version'', JStr ''1.4.0-1'')])]"
    by (simp add: aur_answer_def)
  have 4: "Inr (aur_answer ''1.4.0-1'') = requests_get_json widget_world
             ''https://aur.archlinux.org/rpc.php'' [(''type'', ''info''), (''arg'', ''widget'')]"
    by (simp add: widget_world_def example_world_def)
  have 5: "map_of [(''type'', JStr ''info''), (''resultcount'', JNum 1),
           (''results'', JObj [(''Name'', JStr ''widget''), (''Version'', JStr ''1.4.0-1'')])]
           ''results'' = Some (JObj [(''Name'', JStr ''widget''), (''Version'', JStr ''1.4.0-1'')])"
    by simp
  from repo_version_query [OF 1 2 4, where t = start
      and d = "[(''type'', JStr ''info''), (''resultcount'', JNum 1),
           (''results'', JObj [(''Name'', JStr ''widget''), (''Version'', JStr ''1.4.0-1'')])]"
      and r = "[(''Name'', JStr ''widget''), (''Version'', JStr ''1.4.0-1'')]"] 3 5
  have "snd (repo_version widget_world ?app ''widget'' start) =
           sent (GetParams ''https://aur.archlinux.org/rpc.php''
                   [(''type'', ''info''), (''arg'', ''widget'')]) start"
    and "fst (repo_version widget_world ?app ''widget'' start) = Inr (JStr ''1.4.0-1'')"
    by simp_all
  then have "repo_version widget_world ?app ''widget'' start =
     (Inr (JStr ''1.4.0-1''), sent (GetParams ''https://aur.archlinux.org/rpc.php''
                   [(''type'', ''info''), (''arg'', ''widget'')]) start)"
    by (simp add: prod_eq_iff)
  with 1 2 show ?thesis
    by (simp add: sent_def start_def)
qed

end
